theory Spec2Isabelle
  imports Main "HOL-Library.Word"
begin

section \<open>Values of the Python runtime\<close>

text \<open>
  A \<open>bytes\<close> object is a sequence of octets. A Python 3 \<open>str\<close> is a sequence of code
  points; the elements of \<open>sys.argv\<close> may hold lone surrogates (undecodable bytes of the
  command line are kept that way), so the code points are kept as numbers. Names, file
  names and messages are only compared or passed on, and are kept as \<open>string\<close>.
\<close>

type_synonym byte = "8 word"
type_synonym bytes = "byte list"
type_synonym str = "nat list"

text \<open>
  Exceptions are values: the ones the interpreter raises in this module, and \<open>Raised\<close>
  for whatever an external collaborator raises (by class name).
\<close>

datatype exn = TypeError | KeyError | UnicodeEncodeError | Raised string

section \<open>Heap snapshot data (what \<open>mprofile\<close> hands over)\<close>

record frame =
  name :: string
  filename :: string
  firstlineno :: int
  lineno :: int

text \<open>
  One element of \<open>snap.statistics("traceback")\<close>, with its attributes \<open>traceback\<close>,
  \<open>count\<close> and \<open>size\<close>; the fields carry a prefix, as \<open>size\<close> is a constant of HOL.
\<close>

record statistic =
  stat_traceback :: "frame list"
  stat_count :: int
  stat_size :: int

record snapshot =
  statistics :: "string \<Rightarrow> statistic list"
  sample_rate :: int

type_synonym trace = "(string \<times> string \<times> int \<times> int) list"

text \<open>The dict \<open>samples\<close>, in insertion order: trace => (count, measurement).\<close>

type_synonym sample_table = "(trace \<times> (int \<times> int)) list"

section \<open>Dictionaries and tuples\<close>

text \<open>\<open>d[k]\<close>: the value stored under the key, \<open>KeyError\<close> when there is none.\<close>

definition dict_getitem :: "('k \<times> 'v) list \<Rightarrow> 'k \<Rightarrow> exn + 'v" where
  "dict_getitem d k = (case map_of d k of None \<Rightarrow> Inl KeyError | Some v \<Rightarrow> Inr v)"

text \<open>\<open>d[k] = v\<close>: replaces the value of a present key in place, appends a new key.\<close>

fun dict_setitem :: "'k \<Rightarrow> 'v \<Rightarrow> ('k \<times> 'v) list \<Rightarrow> ('k \<times> 'v) list" where
  "dict_setitem k v [] = [(k, v)]"
| "dict_setitem k v ((k', v') # d) =
     (if k' = k then (k, v) # d else (k', v') # dict_setitem k v d)"

text \<open>\<open>t[i]\<close> on the pair \<open>(count, size)\<close>, for the two indices the module uses.\<close>

definition tuple_getitem :: "int \<times> int \<Rightarrow> nat \<Rightarrow> int" where
  "tuple_getitem t i = (if i = 0 then fst t else snd t)"

text \<open>\<open>t[i] = v\<close>: a tuple does not support item assignment.\<close>

definition tuple_setitem :: "int \<times> int \<Rightarrow> nat \<Rightarrow> int \<Rightarrow> exn + (int \<times> int)" where
  "tuple_setitem t i v = Inl TypeError"

section \<open>\<open>build_heap_pprof\<close>: the aggregation loop\<close>

definition frame_tuple :: "frame \<Rightarrow> string \<times> string \<times> int \<times> int" where
  "frame_tuple f = (name f, filename f, firstlineno f, lineno f)"

text \<open>\<open>trace = tuple((frame.name, frame.filename, frame.firstlineno, frame.lineno) for frame in stat.traceback)\<close>\<close>

definition trace_of :: "statistic \<Rightarrow> trace" where
  "trace_of stat = map frame_tuple (stat_traceback stat)"

text \<open>
  \<open>samples[trace][i] += n\<close>: read \<open>samples[trace]\<close> (\<open>KeyError\<close> for a new trace), add, and
  store the sum back into item \<open>i\<close> of the object read.
\<close>

definition item_iadd :: "sample_table \<Rightarrow> trace \<Rightarrow> nat \<Rightarrow> int \<Rightarrow> exn + sample_table" where
  "item_iadd samples trace i n =
     (case dict_getitem samples trace of
        Inl e \<Rightarrow> Inl e
      | Inr t \<Rightarrow>
          (case tuple_setitem t i (tuple_getitem t i + n) of
             Inl e \<Rightarrow> Inl e
           | Inr t' \<Rightarrow> Inr (dict_setitem trace t' samples)))"

text \<open>
  The body of the \<open>for\<close> loop: the two augmented assignments under \<open>try\<close>, and the
  \<open>except KeyError\<close> handler, which stores a new entry in the table as the statement
  that raised found it. Any other exception leaves the loop.
\<close>

definition aggregate_step :: "sample_table \<Rightarrow> statistic \<Rightarrow> exn + sample_table" where
  "aggregate_step samples stat =
     (let trace = trace_of stat in
      case item_iadd samples trace 0 (stat_count stat) of
        Inl KeyError \<Rightarrow> Inr (dict_setitem trace (stat_count stat, stat_size stat) samples)
      | Inl e \<Rightarrow> Inl e
      | Inr samples1 \<Rightarrow>
          (case item_iadd samples1 trace 1 (stat_size stat) of
             Inl KeyError \<Rightarrow> Inr (dict_setitem trace (stat_count stat, stat_size stat) samples1)
           | Inl e \<Rightarrow> Inl e
           | Inr samples2 \<Rightarrow> Inr samples2))"

fun aggregate :: "sample_table \<Rightarrow> statistic list \<Rightarrow> exn + sample_table" where
  "aggregate samples [] = Inr samples"
| "aggregate samples (stat # rest) =
     (case aggregate_step samples stat of
        Inl e \<Rightarrow> Inl e
      | Inr samples' \<Rightarrow> aggregate samples' rest)"

text \<open>
  \<open>pypprof.builder.Builder\<close> is not among the sources: its constructor and its two
  methods are parameters. \<open>Builder()\<close> gives a fresh builder,
  \<open>populate_profile(samples, name, unit, period, period_type)\<close> fills it, and \<open>emit()\<close>
  serialises it; each may raise.
\<close>

record 'b builder =
  new_builder :: "exn + 'b"
  populate_profile :: "'b \<Rightarrow> sample_table \<Rightarrow> string \<Rightarrow> string \<Rightarrow> int \<Rightarrow> int \<Rightarrow> exn + 'b"
  emit :: "'b \<Rightarrow> exn + bytes"

definition build_heap_pprof :: "'b builder \<Rightarrow> snapshot \<Rightarrow> exn + bytes" where
  "build_heap_pprof B snap =
     (case new_builder B of
        Inl e \<Rightarrow> Inl e
      | Inr profile_builder \<Rightarrow>
          (case aggregate [] (statistics snap ''traceback'') of
             Inl e \<Rightarrow> Inl e
           | Inr samples \<Rightarrow>
               (case populate_profile B profile_builder samples ''HEAP'' ''bytes'' (sample_rate snap) 1 of
                  Inl e \<Rightarrow> Inl e
                | Inr profile_builder' \<Rightarrow> emit B profile_builder')))"

text \<open>The entry the \<open>except KeyError\<close> handler stores for a statistic.\<close>

definition entry_of :: "statistic \<Rightarrow> trace \<times> (int \<times> int)" where
  "entry_of stat = (trace_of stat, (stat_count stat, stat_size stat))"

section \<open>Text: \<open>str.join\<close> and \<open>str.encode("utf-8")\<close>\<close>

text \<open>\<open>sep.join(items)\<close>: the items with \<open>sep\<close> between neighbours.\<close>

fun str_join :: "'a list \<Rightarrow> 'a list list \<Rightarrow> 'a list" where
  "str_join sep [] = []"
| "str_join sep [s] = s"
| "str_join sep (s # t # rest) = s @ sep @ str_join sep (t # rest)"

text \<open>
  The UTF-8 form of one code point. A surrogate (\<open>0xD800\<close> to \<open>0xDFFF\<close>) has none: the
  codec raises \<open>UnicodeEncodeError\<close>. A \<open>str\<close> holds no code point above \<open>0x10FFFF\<close>.
\<close>

definition utf8_char :: "nat \<Rightarrow> bytes option" where
  "utf8_char c =
     (if c < 0x80 then Some [of_nat c]
      else if c < 0x800 then Some [of_nat (0xC0 + c div 64), of_nat (0x80 + c mod 64)]
      else if 0xD800 \<le> c \<and> c < 0xE000 then None
      else if c < 0x10000 then
        Some [of_nat (0xE0 + c div 4096), of_nat (0x80 + c div 64 mod 64), of_nat (0x80 + c mod 64)]
      else if c < 0x110000 then
        Some [of_nat (0xF0 + c div 262144), of_nat (0x80 + c div 4096 mod 64),
              of_nat (0x80 + c div 64 mod 64), of_nat (0x80 + c mod 64)]
      else None)"

fun encode_utf8 :: "str \<Rightarrow> exn + bytes" where
  "encode_utf8 [] = Inr []"
| "encode_utf8 (c # cs) =
     (case utf8_char c of
        None \<Rightarrow> Inl UnicodeEncodeError
      | Some b \<Rightarrow> (case encode_utf8 cs of Inl e \<Rightarrow> Inl e | Inr bs \<Rightarrow> Inr (b @ bs)))"

text \<open>A \<open>str\<close> written with characters below 256, for examples.\<close>

definition str_of :: "string \<Rightarrow> str" where
  "str_of s = map of_char s"

text \<open>
  Whether \<open>encode\<close> accepts a text, and the bytes it gives then: the UTF-8 forms of the
  code points, one after the other.
\<close>

definition encodable :: "str \<Rightarrow> bool" where
  "encodable s = list_all (\<lambda>c. utf8_char c \<noteq> None) s"

definition utf8_bytes :: "str \<Rightarrow> bytes" where
  "utf8_bytes s = concat (map (\<lambda>c. case utf8_char c of None \<Rightarrow> [] | Some b \<Rightarrow> b) s)"

text \<open>
  The specification's wording for the command line, "the arguments joined by single NUL
  bytes, with no trailing NUL", written down independently of \<open>str_join\<close>: every
  argument followed by one NUL byte (the NUL-terminated form), without the last byte.
\<close>

definition nul_terminated :: "bytes list \<Rightarrow> bytes" where
  "nul_terminated args = concat (map (\<lambda>a. a @ [0]) args)"

definition nul_joined :: "bytes list \<Rightarrow> bytes" where
  "nul_joined args = butlast (nul_terminated args)"

section \<open>The process around the module\<close>

text \<open>
  The module talks to collaborators that are not part of it: \<open>zprofile\<close>'s CPU and wall
  profilers, \<open>gc\<close>, \<open>mprofile\<close>, \<open>pypprof.thread_profiler\<close>, and the request handler
  \<open>self\<close>. Each call the module makes is recorded, in program order, in \<open>calls\<close>; what
  the collaborators keep between calls (timers, signal handlers, tracing state, the
  module-level \<open>_wall_profiler\<close> object) is their own state \<open>ext\<close>, of a type the module
  never looks into.
\<close>

datatype call =
    NewCPUProfiler
  | CPUProfile int
  | WallProfile int
  | RegisterHandler
  | GcCollect
  | IsTracing
  | TakeSnapshot
  | ThreadSnapshot
  | SendError int string

record 'x world =
  calls :: "call list"
  ext :: 'x

text \<open>
  What a collaborator's function does: from its state, a value or an exception, and its
  new state. \<open>has_mprofile\<close> is the module-level flag set by the guarded import, and
  \<open>sys_argv\<close> is \<open>sys.argv\<close>.
\<close>

record ('x, 'p, 'b) library =
  CPUProfiler :: "'x \<Rightarrow> (exn + 'p) \<times> 'x"
  CPUProfiler_profile :: "'p \<Rightarrow> int \<Rightarrow> 'x \<Rightarrow> (exn + bytes) \<times> 'x"
  WallProfiler_profile :: "int \<Rightarrow> 'x \<Rightarrow> (exn + bytes) \<times> 'x"
  WallProfiler_register_handler :: "'x \<Rightarrow> (exn + unit) \<times> 'x"
  gc_collect :: "'x \<Rightarrow> (exn + unit) \<times> 'x"
  has_mprofile :: bool
  mprofile_is_tracing :: "'x \<Rightarrow> (exn + bool) \<times> 'x"
  mprofile_take_snapshot :: "'x \<Rightarrow> (exn + snapshot) \<times> 'x"
  thread_profiler_take_snapshot :: "'x \<Rightarrow> (exn + bytes) \<times> 'x"
  Builder :: "'b builder"
  sys_argv :: "str list"

text \<open>The request handler passed as \<open>self\<close>; the module uses its \<open>send_error\<close> only.\<close>

record ('x, 'r) handler =
  send_error :: "int \<Rightarrow> string \<Rightarrow> 'x \<Rightarrow> (exn + 'r) \<times> 'x"

text \<open>A statement sequence: it runs in a world and ends with a value or an exception.\<close>

type_synonym ('a, 'x) action = "'x world \<Rightarrow> (exn + 'a) \<times> 'x world"

definition return_value :: "'a \<Rightarrow> ('a, 'x) action" where
  "return_value a w = (Inr a, w)"

definition raise :: "exn \<Rightarrow> ('a, 'x) action" where
  "raise e w = (Inl e, w)"

definition lift_result :: "exn + 'a \<Rightarrow> ('a, 'x) action" where
  "lift_result r w = (r, w)"

text \<open>Sequencing: an exception ends the sequence, nothing in these functions catches it.\<close>

definition and_then :: "('a, 'x) action \<Rightarrow> ('a \<Rightarrow> ('b, 'x) action) \<Rightarrow> ('b, 'x) action" where
  "and_then m f w = (case m w of (Inl e, w') \<Rightarrow> (Inl e, w') | (Inr a, w') \<Rightarrow> f a w')"

text \<open>A call to a collaborator: recorded, then run on the collaborators' state.\<close>

definition extern :: "call \<Rightarrow> ('x \<Rightarrow> (exn + 'a) \<times> 'x) \<Rightarrow> ('a, 'x) action" where
  "extern c f w = (case f (ext w) of (r, x') \<Rightarrow> (r, \<lparr>calls = calls w @ [c], ext = x'\<rparr>))"

text \<open>
  Binding of arguments to parameters. \<open>None\<close> is an argument the call does not supply:
  a parameter without a default raises \<open>TypeError\<close> then, one with a default takes it.
\<close>

definition required_arg :: "'a option \<Rightarrow> ('a, 'x) action" where
  "required_arg a = (case a of None \<Rightarrow> raise TypeError | Some v \<Rightarrow> return_value v)"

definition default_arg :: "'a \<Rightarrow> 'a option \<Rightarrow> 'a" where
  "default_arg d a = (case a of None \<Rightarrow> d | Some v \<Rightarrow> v)"

section \<open>\<open>net_http\<close>: the handlers\<close>

definition start_pprof :: "('x, 'p, 'b) library \<Rightarrow> (unit, 'x) action" where
  "start_pprof L = extern RegisterHandler (WallProfiler_register_handler L)"

definition profile ::
  "('x, 'p, 'b) library \<Rightarrow> ('x, 'r) handler option \<Rightarrow> int option \<Rightarrow> (bytes, 'x) action" where
  "profile L self duration_secs =
     and_then (required_arg self) (\<lambda>self.
       let duration_secs = default_arg 30 duration_secs in
       and_then (extern NewCPUProfiler (CPUProfiler L)) (\<lambda>cpu_profiler.
       and_then (extern (CPUProfile duration_secs) (CPUProfiler_profile L cpu_profiler duration_secs)) (\<lambda>pprof.
       return_value pprof)))"

definition wall ::
  "('x, 'p, 'b) library \<Rightarrow> ('x, 'r) handler option \<Rightarrow> int option \<Rightarrow> (bytes, 'x) action" where
  "wall L self duration_secs =
     and_then (required_arg self) (\<lambda>self.
       let duration_secs = default_arg 30 duration_secs in
       and_then (extern (WallProfile duration_secs) (WallProfiler_profile L duration_secs)) (\<lambda>pprof.
       return_value pprof))"

text \<open>What \<open>heap\<close> returns: the value of \<open>self.send_error(...)\<close>, or the encoded profile.\<close>

datatype 'r reply = ErrorSent 'r | Pprof bytes

definition heap ::
  "('x, 'p, 'b) library \<Rightarrow> ('x, 'r) handler option \<Rightarrow> bool option \<Rightarrow> ('r reply, 'x) action" where
  "heap L self run_gc =
     and_then (required_arg self) (\<lambda>self.
       let run_gc = default_arg False run_gc in
       and_then (if run_gc then extern GcCollect (gc_collect L) else return_value ()) (\<lambda>_.
       if \<not> has_mprofile L then
         and_then (extern (SendError 412 ''mprofile must be installed to enable heap profiling'')
                     (send_error self 412 ''mprofile must be installed to enable heap profiling'')) (\<lambda>r.
         return_value (ErrorSent r))
       else
         and_then (extern IsTracing (mprofile_is_tracing L)) (\<lambda>tracing.
         if \<not> tracing then
           and_then (extern (SendError 412 ''Heap profiling is not enabled'')
                       (send_error self 412 ''Heap profiling is not enabled'')) (\<lambda>r.
           return_value (ErrorSent r))
         else
           and_then (extern TakeSnapshot (mprofile_take_snapshot L)) (\<lambda>snap.
           and_then (lift_result (build_heap_pprof (Builder L) snap)) (\<lambda>pprof.
           return_value (Pprof pprof))))))"

definition thread ::
  "('x, 'p, 'b) library \<Rightarrow> ('x, 'r) handler option \<Rightarrow> bool option \<Rightarrow> (bytes, 'x) action" where
  "thread L self debug =
     and_then (required_arg self) (\<lambda>self.
       let debug = default_arg False debug in
       and_then (extern ThreadSnapshot (thread_profiler_take_snapshot L)) (\<lambda>pprof.
       return_value pprof))"

definition cmdline ::
  "('x, 'p, 'b) library \<Rightarrow> ('x, 'r) handler option \<Rightarrow> (bytes, 'x) action" where
  "cmdline L self =
     and_then (required_arg self) (\<lambda>self.
       let body = str_join [0] (sys_argv L) in
       lift_result (encode_utf8 body))"

section \<open>\<open>fastapi\<close>: the route handler\<close>

record response =
  content :: bytes
  headers :: "(string \<times> string) list"

text \<open>\<open>p = profile()\<close>: the call supplies no argument at all.\<close>

definition handle_profile :: "('x, 'p, 'b) library \<Rightarrow> 'q \<Rightarrow> (response, 'x) action" where
  "handle_profile L request =
     and_then (profile L (None :: ('x, unit) handler option) None) (\<lambda>p.
       return_value
         \<lparr>content = p,
          headers = [(''Content-Type'', ''application/octet-stream''),
                     (''Content-Disposition'', ''attachment; filename='' @ [CHR 0x22] @ ''profile'' @ [CHR 0x22])]\<rparr>)"

section \<open>A concrete process, for examples\<close>

text \<open>
  Collaborators with a visible state: how many sampling sessions of each kind are under
  way (started by other request threads), how often the signal handler was registered,
  how often the collector ran, whether heap tracing is on, and the allocation statistics
  a snapshot would report. These profilers accept every duration and never refuse a
  session; \<open>register_handler\<close> registers again on every call.
\<close>

record sampler =
  cpu_sessions :: nat
  wall_sessions :: nat
  registrations :: nat
  collections :: nat
  tracing :: bool
  allocations :: "statistic list"

definition example_builder :: "sample_table builder" where
  "example_builder =
     \<lparr>new_builder = Inr [],
      populate_profile = (\<lambda>profile_builder samples name unit period period_type. Inr samples),
      emit = (\<lambda>samples. Inr [0x1F, 0x8B, of_nat (length samples)])\<rparr>"

definition example_library :: "bool \<Rightarrow> str list \<Rightarrow> (sampler, unit, sample_table) library" where
  "example_library installed argv =
     \<lparr>CPUProfiler = (\<lambda>x. (Inr (), x)),
      CPUProfiler_profile = (\<lambda>p d x. (Inr [0x1F, 0x8B], x)),
      WallProfiler_profile = (\<lambda>d x. (Inr [0x1F, 0x8B], x)),
      WallProfiler_register_handler = (\<lambda>x. (Inr (), x\<lparr>registrations := Suc (registrations x)\<rparr>)),
      gc_collect = (\<lambda>x. (Inr (), x\<lparr>collections := Suc (collections x)\<rparr>)),
      has_mprofile = installed,
      mprofile_is_tracing = (\<lambda>x. (Inr (tracing x), x)),
      mprofile_take_snapshot =
        (\<lambda>x. (Inr \<lparr>statistics = (\<lambda>key_type. allocations x), sample_rate = 128\<rparr>, x)),
      thread_profiler_take_snapshot = (\<lambda>x. (Inr [0x1F, 0x8B], x)),
      Builder = example_builder,
      sys_argv = argv\<rparr>"

definition example_handler :: "(sampler, unit) handler" where
  "example_handler = \<lparr>send_error = (\<lambda>code message x. (Inr (), x))\<rparr>"

definition idle :: sampler where
  "idle = \<lparr>cpu_sessions = 0, wall_sessions = 0, registrations = 0, collections = 0,
            tracing = False, allocations = []\<rparr>"

text \<open>Two frames of one function that differ in the current line only.\<close>

definition frame_at :: "int \<Rightarrow> frame" where
  "frame_at line = \<lparr>name = ''work'', filename = ''app.py'', firstlineno = 10, lineno = line\<rparr>"

section \<open>Properties of the aggregation loop\<close>

lemma dict_setitem_new:
  "map_of d k = None \<Longrightarrow> dict_setitem k v d = d @ [(k, v)]"
  by (induction d) (auto split: if_splits)

lemma aggregate_step_new:
  "map_of samples (trace_of stat) = None \<Longrightarrow>
   aggregate_step samples stat = Inr (samples @ [entry_of stat])"
  by (simp add: aggregate_step_def item_iadd_def dict_getitem_def dict_setitem_new entry_of_def)

lemma aggregate_step_seen:
  "map_of samples (trace_of stat) \<noteq> None \<Longrightarrow> aggregate_step samples stat = Inl TypeError"
  by (auto simp: aggregate_step_def item_iadd_def dict_getitem_def tuple_setitem_def)

lemma aggregate_distinct:
  "distinct (map trace_of sts) \<Longrightarrow> \<forall>st\<in>set sts. map_of samples (trace_of st) = None \<Longrightarrow>
   aggregate samples sts = Inr (samples @ map entry_of sts)"
proof (induction sts arbitrary: samples)
  case Nil
  then show ?case by simp
next
  case (Cons st rest)
  have step: "aggregate_step samples st = Inr (samples @ [entry_of st])"
    using Cons.prems(2) by (simp add: aggregate_step_new)
  have fresh: "\<forall>st'\<in>set rest. map_of (samples @ [entry_of st]) (trace_of st') = None"
  proof
    fix st' assume m: "st' \<in> set rest"
    then have "trace_of st' \<noteq> trace_of st" using Cons.prems(1) by (force simp: image_iff)
    moreover have "map_of samples (trace_of st') = None" using Cons.prems(2) m by simp
    ultimately show "map_of (samples @ [entry_of st]) (trace_of st') = None"
      by (simp add: entry_of_def map_add_def)
  qed
  have "aggregate (samples @ [entry_of st]) rest = Inr ((samples @ [entry_of st]) @ map entry_of rest)"
    using Cons.IH [OF _ fresh] Cons.prems(1) by simp
  then show ?case using step by simp
qed

lemma aggregate_repeated:
  "(\<exists>st\<in>set sts. map_of samples (trace_of st) \<noteq> None) \<or> \<not> distinct (map trace_of sts) \<Longrightarrow>
   aggregate samples sts = Inl TypeError"
proof (induction sts arbitrary: samples)
  case Nil
  then show ?case by simp
next
  case (Cons st rest)
  show ?case
  proof (cases "map_of samples (trace_of st)")
    case (Some v)
    then show ?thesis by (simp add: aggregate_step_seen)
  next
    case None
    then have step: "aggregate_step samples st = Inr (samples @ [entry_of st])"
      by (simp add: aggregate_step_new)
    have "(\<exists>st'\<in>set rest. map_of (samples @ [entry_of st]) (trace_of st') \<noteq> None)
          \<or> \<not> distinct (map trace_of rest)"
      using Cons.prems None by (auto simp: entry_of_def map_add_def split: option.splits)
    then have "aggregate (samples @ [entry_of st]) rest = Inl TypeError"
      by (rule Cons.IH)
    then show ?thesis using step by simp
  qed
qed

lemma aggregate_Inr_iff:
  "aggregate [] sts = Inr samples \<longleftrightarrow> distinct (map trace_of sts) \<and> samples = map entry_of sts"
proof (cases "distinct (map trace_of sts)")
  case True
  then show ?thesis using aggregate_distinct [of sts "[]"] by auto
next
  case False
  then show ?thesis using aggregate_repeated [of sts "[]"] by auto
qed

lemma frame_tuple_inj: "frame_tuple f = frame_tuple g \<longleftrightarrow> f = g"
  by (cases f, cases g) (simp add: frame_tuple_def)

lemma trace_of_eq_iff: "trace_of a = trace_of b \<longleftrightarrow> stat_traceback a = stat_traceback b"
  unfolding trace_of_def using frame_tuple_inj
  by (metis inj_map_eq_map inj_on_def)

lemma map_of_entries:
  "distinct (map trace_of sts) \<Longrightarrow> a \<in> set sts \<Longrightarrow>
   map_of (map entry_of sts) (trace_of a) = Some (stat_count a, stat_size a)"
  by (induction sts) (auto simp: entry_of_def image_iff)

section \<open>Properties of the text functions\<close>

lemma utf8_char_NUL: "utf8_char 0 = Some [0]"
  by (simp add: utf8_char_def)

lemma encodable_simps:
  "encodable [] \<longleftrightarrow> True"
  "encodable (c # s) \<longleftrightarrow> utf8_char c \<noteq> None \<and> encodable s"
  by (simp_all add: encodable_def)

lemma utf8_bytes_simps:
  "utf8_bytes [] = []"
  "utf8_bytes (c # s) = (case utf8_char c of None \<Rightarrow> [] | Some b \<Rightarrow> b) @ utf8_bytes s"
  by (simp_all add: utf8_bytes_def)

text \<open>For text of code points below 128 the bytes are the code points.\<close>

lemma utf8_bytes_ascii: "list_all (\<lambda>c. c < 128) s \<Longrightarrow> utf8_bytes s = map of_nat s"
  by (induction s) (simp_all add: utf8_bytes_simps utf8_char_def)

lemma encodable_ascii: "list_all (\<lambda>c. c < 128) s \<Longrightarrow> encodable s"
  by (induction s) (simp_all add: encodable_simps utf8_char_def)

lemma encode_utf8_eq:
  "encode_utf8 s = (if encodable s then Inr (utf8_bytes s) else Inl UnicodeEncodeError)"
  by (induction s) (auto simp: encodable_def utf8_bytes_def split: option.splits)

lemma encodable_append: "encodable (s @ t) \<longleftrightarrow> encodable s \<and> encodable t"
  by (simp add: encodable_def)

lemma utf8_bytes_append: "utf8_bytes (s @ t) = utf8_bytes s @ utf8_bytes t"
  by (simp add: utf8_bytes_def)

lemma encodable_join: "encodable (str_join [0] args) \<longleftrightarrow> list_all encodable args"
  by (induction "[0::nat]" args rule: str_join.induct)
     (simp_all add: encodable_append encodable_simps utf8_char_NUL)

lemma utf8_bytes_join: "utf8_bytes (str_join [0] args) = str_join [0] (map utf8_bytes args)"
  by (induction "[0::nat]" args rule: str_join.induct)
     (simp_all add: utf8_bytes_append utf8_bytes_simps utf8_char_NUL)

lemma str_join_butlast: "str_join [z] args = butlast (concat (map (\<lambda>a. a @ [z]) args))"
  by (induction "[z]" args rule: str_join.induct) (auto simp: butlast_append)

lemma nul_joined_terminated: "args \<noteq> [] \<Longrightarrow> nul_joined args @ [0] = nul_terminated args"
  by (cases args rule: rev_cases) (simp_all add: nul_joined_def nul_terminated_def butlast_append)

section \<open>Properties of the handlers\<close>

lemmas run = and_then_def extern_def required_arg_def default_arg_def return_value_def
  raise_def lift_result_def

lemma profile_run:
  "profile L (Some self) (Some d) w =
     (case CPUProfiler L (ext w) of
        (Inl e, x1) \<Rightarrow> (Inl e, \<lparr>calls = calls w @ [NewCPUProfiler], ext = x1\<rparr>)
      | (Inr p, x1) \<Rightarrow>
          (case CPUProfiler_profile L p d x1 of
             (r, x2) \<Rightarrow> (r, \<lparr>calls = calls w @ [NewCPUProfiler, CPUProfile d], ext = x2\<rparr>)))"
  by (simp add: profile_def run split: prod.splits sum.splits)

lemma wall_run:
  "wall L (Some self) (Some d) w =
     (case WallProfiler_profile L d (ext w) of
        (r, x1) \<Rightarrow> (r, \<lparr>calls = calls w @ [WallProfile d], ext = x1\<rparr>))"
  by (simp add: wall_def run split: prod.splits sum.splits)

text \<open>The defaults: 30 seconds, no collection, no debug output.\<close>

lemma default_arguments:
  "profile L self None w = profile L self (Some 30) w"
  "wall L self None w = wall L self (Some 30) w"
  "heap L self None w = heap L self (Some False) w"
  "thread L self None w = thread L self (Some False) w"
  by (simp_all add: profile_def wall_def heap_def thread_def default_arg_def)

lemma start_pprof_run:
  "start_pprof L w =
     (case WallProfiler_register_handler L (ext w) of
        (r, x1) \<Rightarrow> (r, \<lparr>calls = calls w @ [RegisterHandler], ext = x1\<rparr>))"
  by (simp add: start_pprof_def run split: prod.splits sum.splits)

text \<open>
  \<open>heap\<close> without \<open>mprofile\<close>, or with tracing off: the handler's \<open>send_error(412, ...)\<close> is
  called and its value returned; no snapshot is taken and no profile is built.
\<close>

lemma heap_not_installed:
  "\<not> has_mprofile L \<Longrightarrow>
   heap L (Some self) (Some False) w =
     (case send_error self 412 ''mprofile must be installed to enable heap profiling'' (ext w) of
        (r, x1) \<Rightarrow>
          ((case r of Inl e \<Rightarrow> Inl e | Inr v \<Rightarrow> Inr (ErrorSent v)),
           \<lparr>calls = calls w @ [SendError 412 ''mprofile must be installed to enable heap profiling''],
            ext = x1\<rparr>))"
  by (simp add: heap_def run split: prod.splits sum.splits)

lemma heap_not_tracing:
  "has_mprofile L \<Longrightarrow> mprofile_is_tracing L (ext w) = (Inr False, x1) \<Longrightarrow>
   heap L (Some self) (Some False) w =
     (case send_error self 412 ''Heap profiling is not enabled'' x1 of
        (r, x2) \<Rightarrow>
          ((case r of Inl e \<Rightarrow> Inl e | Inr v \<Rightarrow> Inr (ErrorSent v)),
           \<lparr>calls = calls w @ [IsTracing, SendError 412 ''Heap profiling is not enabled''],
            ext = x2\<rparr>))"
  by (simp add: heap_def run split: prod.splits sum.splits)

text \<open>With tracing on, the result is that of \<open>build_heap_pprof\<close> on the snapshot.\<close>

lemma heap_tracing:
  "has_mprofile L \<Longrightarrow> mprofile_is_tracing L (ext w) = (Inr True, x1) \<Longrightarrow>
   mprofile_take_snapshot L x1 = (Inr snap, x2) \<Longrightarrow>
   heap L (Some self) (Some False) w =
     ((case build_heap_pprof (Builder L) snap of Inl e \<Rightarrow> Inl e | Inr pprof \<Rightarrow> Inr (Pprof pprof)),
      \<lparr>calls = calls w @ [IsTracing, TakeSnapshot], ext = x2\<rparr>)"
  by (simp add: heap_def run split: prod.splits sum.splits)

lemma heap_gc_first:
  "take (Suc (length (calls w))) (calls (snd (heap L (Some self) (Some True) w))) = calls w @ [GcCollect]"
  by (simp add: heap_def run split: prod.splits sum.splits)

lemma heap_gc_not_installed:
  "gc_collect L (ext w) = (Inr (), x1) \<Longrightarrow> \<not> has_mprofile L \<Longrightarrow>
   snd (heap L (Some self) (Some True) w) =
     \<lparr>calls = calls w @ [GcCollect, SendError 412 ''mprofile must be installed to enable heap profiling''],
      ext = snd (send_error self 412 ''mprofile must be installed to enable heap profiling'' x1)\<rparr>"
  by (simp add: heap_def run split: prod.splits sum.splits)

lemma heap_gc_not_tracing:
  "gc_collect L (ext w) = (Inr (), x1) \<Longrightarrow> has_mprofile L \<Longrightarrow>
   mprofile_is_tracing L x1 = (Inr False, x2) \<Longrightarrow>
   snd (heap L (Some self) (Some True) w) =
     \<lparr>calls = calls w @ [GcCollect, IsTracing, SendError 412 ''Heap profiling is not enabled''],
      ext = snd (send_error self 412 ''Heap profiling is not enabled'' x2)\<rparr>"
  by (simp add: heap_def run split: prod.splits sum.splits)

text \<open>
  \<open>heap\<close> has no handler of its own for what \<open>build_heap_pprof\<close> raises: were a snapshot
  to list one traceback twice, the \<open>TypeError\<close> of the aggregation loop would leave
  \<open>heap\<close> as well.
\<close>

lemma heap_repeated_trace:
  assumes "has_mprofile L"
    and "mprofile_is_tracing L (ext w) = (Inr True, x1)"
    and "mprofile_take_snapshot L x1 = (Inr snap, x2)"
    and "\<not> distinct (map trace_of (statistics snap ''traceback''))"
    and "new_builder (Builder L) = Inr profile_builder"
  shows "heap L (Some self) None w
         = (Inl TypeError, \<lparr>calls = calls w @ [IsTracing, TakeSnapshot], ext = x2\<rparr>)"
proof -
  have "build_heap_pprof (Builder L) snap = Inl TypeError"
    using assms(4,5) aggregate_repeated [of "statistics snap ''traceback''" "[]"]
    by (simp add: build_heap_pprof_def)
  then show ?thesis
    using assms(1,2,3) by (simp add: heap_def run)
qed

text \<open>
  The three ways through \<open>heap\<close> once the optional collection has returned, leaving the
  world \<open>w0\<close>.
\<close>

lemma heap_gate_not_installed:
  assumes "(if default_arg False run_gc then extern GcCollect (gc_collect L) else return_value ()) w
           = (Inr (), w0)"
    and "\<not> has_mprofile L"
  shows "heap L (Some self) run_gc w =
     (case send_error self 412 ''mprofile must be installed to enable heap profiling'' (ext w0) of
        (r, x1) \<Rightarrow>
          ((case r of Inl e \<Rightarrow> Inl e | Inr v \<Rightarrow> Inr (ErrorSent v)),
           \<lparr>calls = calls w0 @ [SendError 412 ''mprofile must be installed to enable heap profiling''],
            ext = x1\<rparr>))"
  using assms by (simp add: heap_def run split: prod.splits sum.splits if_splits)

lemma heap_gate_not_tracing:
  assumes "(if default_arg False run_gc then extern GcCollect (gc_collect L) else return_value ()) w
           = (Inr (), w0)"
    and "has_mprofile L"
    and "mprofile_is_tracing L (ext w0) = (Inr False, x1)"
  shows "heap L (Some self) run_gc w =
     (case send_error self 412 ''Heap profiling is not enabled'' x1 of
        (r, x2) \<Rightarrow>
          ((case r of Inl e \<Rightarrow> Inl e | Inr v \<Rightarrow> Inr (ErrorSent v)),
           \<lparr>calls = calls w0 @ [IsTracing, SendError 412 ''Heap profiling is not enabled''],
            ext = x2\<rparr>))"
  using assms by (simp add: heap_def run split: prod.splits sum.splits if_splits)

lemma heap_gate_tracing:
  assumes "(if default_arg False run_gc then extern GcCollect (gc_collect L) else return_value ()) w
           = (Inr (), w0)"
    and "has_mprofile L"
    and "mprofile_is_tracing L (ext w0) = (Inr True, x1)"
    and "mprofile_take_snapshot L x1 = (Inr snap, x2)"
  shows "heap L (Some self) run_gc w =
     ((case build_heap_pprof (Builder L) snap of Inl e \<Rightarrow> Inl e | Inr pprof \<Rightarrow> Inr (Pprof pprof)),
      \<lparr>calls = calls w0 @ [IsTracing, TakeSnapshot], ext = x2\<rparr>)"
  using assms by (simp add: heap_def run split: prod.splits sum.splits if_splits)

text \<open>
  On a snapshot whose statistics name every traceback once, \<open>build_heap_pprof\<close> hands
  the builder one entry per statistic, in their order, and returns what \<open>emit\<close> returns.
\<close>

lemma build_heap_pprof_grouped:
  assumes "distinct (map trace_of (statistics snap ''traceback''))"
    and "new_builder B = Inr b0"
    and "populate_profile B b0 (map entry_of (statistics snap ''traceback''))
           ''HEAP'' ''bytes'' (sample_rate snap) 1 = Inr b1"
  shows "build_heap_pprof B snap = emit B b1"
  using assms aggregate_distinct [of "statistics snap ''traceback''" "[]"]
  by (simp add: build_heap_pprof_def)

section \<open>Aggregation of heap statistics\<close>

text \<open>
  C1. Two statistics of one snapshot with identical traces should give one entry whose
  count and size are the sums (counts 3 and 2, sizes 100 and 50: count 5, size 150).
  \<open>build_heap_pprof\<close> does not get there. The entry stored for the first statistic of a
  trace is a tuple; for the next statistic with that trace the augmented assignment
  finds the entry and raises \<open>TypeError\<close> on the item assignment, the handler catches
  \<open>KeyError\<close> only, and the exception leaves the function. So for every snapshot in
  which a trace occurs twice, and every builder, the call ends with an exception: the
  builder constructor's own, or \<open>TypeError\<close>.
\<close>

theorem build_heap_pprof_same_trace_raises:
  assumes "\<not> distinct (map trace_of (statistics snap ''traceback''))"
  shows "build_heap_pprof B snap
         = (case new_builder B of Inl e \<Rightarrow> Inl e | Inr profile_builder \<Rightarrow> Inl TypeError)"
  using assms aggregate_repeated [of "statistics snap ''traceback''" "[]"]
  by (simp add: build_heap_pprof_def split: sum.splits)

text \<open>The example of the specification: one trace, counts 3 and 2, sizes 100 and 50.\<close>

theorem build_heap_pprof_same_trace_raises_witness:
  "build_heap_pprof example_builder
     \<lparr>statistics = (\<lambda>key_type. [\<lparr>stat_traceback = [frame_at 12], stat_count = 3, stat_size = 100\<rparr>,
                                 \<lparr>stat_traceback = [frame_at 12], stat_count = 2, stat_size = 50\<rparr>]),
      sample_rate = 128\<rparr>
   = Inl TypeError"
  using build_heap_pprof_same_trace_raises
    [of "\<lparr>statistics = (\<lambda>key_type. [\<lparr>stat_traceback = [frame_at 12], stat_count = 3, stat_size = 100\<rparr>,
                                        \<lparr>stat_traceback = [frame_at 12], stat_count = 2, stat_size = 50\<rparr>]),
          sample_rate = 128\<rparr>" example_builder]
  by (simp add: example_builder_def trace_of_def)

text \<open>
  C8. Two statistics whose tracebacks differ in a frame (in any of the four fields, the
  current line included) have different traces and are never merged: a snapshot of the
  two gives two entries, each with its own count and size, in the order of the
  statistics, and that table is what \<open>build_heap_pprof\<close> hands to the builder; and
  whenever the loop finishes on a snapshot that holds both, each trace is a key of the
  table with exactly the count and size of its own statistic.
\<close>

theorem differing_traces_stay_apart:
  assumes "stat_traceback a \<noteq> stat_traceback b"
  shows "trace_of a \<noteq> trace_of b
       \<and> aggregate [] [a, b] = Inr [entry_of a, entry_of b]
       \<and> build_heap_pprof B \<lparr>statistics = (\<lambda>key_type. [a, b]), sample_rate = rate\<rparr>
           = (case new_builder B of
                Inl e \<Rightarrow> Inl e
              | Inr profile_builder \<Rightarrow>
                  (case populate_profile B profile_builder [entry_of a, entry_of b]
                          ''HEAP'' ''bytes'' rate 1 of
                     Inl e \<Rightarrow> Inl e
                   | Inr profile_builder' \<Rightarrow> emit B profile_builder'))
       \<and> (\<forall>sts samples. a \<in> set sts \<and> b \<in> set sts \<and> aggregate [] sts = Inr samples \<longrightarrow>
            map_of samples (trace_of a) = Some (stat_count a, stat_size a)
          \<and> map_of samples (trace_of b) = Some (stat_count b, stat_size b))"
proof -
  have ne: "trace_of a \<noteq> trace_of b"
    using assms by (simp add: trace_of_eq_iff)
  have two: "aggregate [] [a, b] = Inr [entry_of a, entry_of b]"
    using ne aggregate_distinct [of "[a, b]" "[]"] by simp
  have built: "build_heap_pprof B \<lparr>statistics = (\<lambda>key_type. [a, b]), sample_rate = rate\<rparr>
           = (case new_builder B of
                Inl e \<Rightarrow> Inl e
              | Inr profile_builder \<Rightarrow>
                  (case populate_profile B profile_builder [entry_of a, entry_of b]
                          ''HEAP'' ''bytes'' rate 1 of
                     Inl e \<Rightarrow> Inl e
                   | Inr profile_builder' \<Rightarrow> emit B profile_builder'))"
    using two by (simp add: build_heap_pprof_def del: aggregate.simps split: sum.splits)
  have all: "map_of samples (trace_of a) = Some (stat_count a, stat_size a)
           \<and> map_of samples (trace_of b) = Some (stat_count b, stat_size b)"
    if "a \<in> set sts \<and> b \<in> set sts \<and> aggregate [] sts = Inr samples" for sts samples
    using that by (simp add: aggregate_Inr_iff map_of_entries)
  from ne two built all show ?thesis by blast
qed

text \<open>
  Two statistics that differ in the current line of their only frame (12 and 13): alone,
  and in a snapshot with a third statistic between them.
\<close>

theorem differing_traces_stay_apart_witness:
  "aggregate []
     [\<lparr>stat_traceback = [frame_at 12], stat_count = 3, stat_size = 100\<rparr>,
      \<lparr>stat_traceback = [frame_at 13], stat_count = 2, stat_size = 50\<rparr>]
   = Inr [([(''work'', ''app.py'', 10, 12)], (3, 100)), ([(''work'', ''app.py'', 10, 13)], (2, 50))]
   \<and> aggregate []
     [\<lparr>stat_traceback = [frame_at 12], stat_count = 3, stat_size = 100\<rparr>,
      \<lparr>stat_traceback = [frame_at 20], stat_count = 7, stat_size = 700\<rparr>,
      \<lparr>stat_traceback = [frame_at 13], stat_count = 2, stat_size = 50\<rparr>]
   = Inr [([(''work'', ''app.py'', 10, 12)], (3, 100)),
          ([(''work'', ''app.py'', 10, 20)], (7, 700)),
          ([(''work'', ''app.py'', 10, 13)], (2, 50))]
   \<and> map_of [([(''work'', ''app.py'', 10, 12)], (3, 100)),
             ([(''work'', ''app.py'', 10, 20)], (7, 700)),
             ([(''work'', ''app.py'', 10, 13)], (2, 50))] [(''work'', ''app.py'', 10 :: int, 13 :: int)]
     = Some (2 :: int, 50 :: int)"
proof -
  let ?a = "\<lparr>stat_traceback = [frame_at 12], stat_count = 3, stat_size = 100\<rparr>"
  let ?b = "\<lparr>stat_traceback = [frame_at 13], stat_count = 2, stat_size = 50\<rparr>"
  let ?c = "\<lparr>stat_traceback = [frame_at 20], stat_count = 7, stat_size = 700\<rparr>"
  let ?table = "[([(''work'', ''app.py'', 10, 12)], (3, 100)),
                 ([(''work'', ''app.py'', 10, 20)], (7, 700)),
                 ([(''work'', ''app.py'', 10, 13)], (2, 50))]"
  have differ: "stat_traceback ?a \<noteq> stat_traceback ?b"
    by (simp add: frame_at_def)
  note kept = differing_traces_stay_apart [OF differ, of example_builder 128]
  have three: "aggregate [] [?a, ?c, ?b] = Inr ?table"
    by (simp add: aggregate_step_new entry_of_def trace_of_def frame_tuple_def frame_at_def)
  from kept have
    "?a \<in> set [?a, ?c, ?b] \<and> ?b \<in> set [?a, ?c, ?b] \<and> aggregate [] [?a, ?c, ?b] = Inr ?table \<longrightarrow>
     map_of ?table (trace_of ?b) = Some (stat_count ?b, stat_size ?b)"
    by blast
  with three have "map_of ?table (trace_of ?b) = Some (stat_count ?b, stat_size ?b)"
    by simp
  moreover from kept have "aggregate [] [?a, ?b] = Inr [entry_of ?a, entry_of ?b]"
    by blast
  ultimately show ?thesis
    using three by (simp add: entry_of_def trace_of_def frame_tuple_def frame_at_def)
qed

section \<open>Sampling sessions\<close>

text \<open>
  C2, as stated, asks that a start is refused with \<open>AlreadyProfiling\<close> while a session
  of its kind is under way. The module has no such check. Here the collaborators report
  one CPU session (one wall session) under way, begun by an earlier call that the call
  record shows; the second start of the same kind, for 5 seconds, constructs the
  profiler, samples, and returns the profile.
\<close>

theorem second_start_not_refused:
  "profile (example_library False []) (Some example_handler) (Some 5)
     \<lparr>calls = [NewCPUProfiler, CPUProfile 5], ext = idle\<lparr>cpu_sessions := 1\<rparr>\<rparr>
   = (Inr [0x1F, 0x8B],
      \<lparr>calls = [NewCPUProfiler, CPUProfile 5, NewCPUProfiler, CPUProfile 5],
       ext = idle\<lparr>cpu_sessions := 1\<rparr>\<rparr>)
   \<and> wall (example_library False []) (Some example_handler) (Some 5)
     \<lparr>calls = [WallProfile 5], ext = idle\<lparr>wall_sessions := 1\<rparr>\<rparr>
   = (Inr [0x1F, 0x8B],
      \<lparr>calls = [WallProfile 5, WallProfile 5], ext = idle\<lparr>wall_sessions := 1\<rparr>\<rparr>)"
  by (simp add: profile_run wall_run example_library_def)

text \<open>
  C2, amended. For both kinds, in every world (whatever calls came before and whatever
  sessions the collaborators have under way) and for every collaborator, a start call
  keeps no session state and makes no check of its own: \<open>profile\<close> constructs a new
  \<open>CPUProfiler\<close> and calls its \<open>profile(duration_secs)\<close>, \<open>wall\<close> calls
  \<open>profile(duration_secs)\<close> of the module-level wall profiler, and the outcome of the
  call, value or exception, is the profiler's. Whether an overlapping session is
  refused is decided by the external profiler alone.
\<close>

theorem start_passes_to_the_profiler:
  "profile L (Some self) (Some d) w =
     (case CPUProfiler L (ext w) of
        (Inl e, x1) \<Rightarrow> (Inl e, \<lparr>calls = calls w @ [NewCPUProfiler], ext = x1\<rparr>)
      | (Inr p, x1) \<Rightarrow>
          (case CPUProfiler_profile L p d x1 of
             (r, x2) \<Rightarrow> (r, \<lparr>calls = calls w @ [NewCPUProfiler, CPUProfile d], ext = x2\<rparr>)))
   \<and> wall L (Some self) (Some d) w =
     (case WallProfiler_profile L d (ext w) of
        (r, x1) \<Rightarrow> (r, \<lparr>calls = calls w @ [WallProfile d], ext = x1\<rparr>))"
  by (simp add: profile_run wall_run)

text \<open>
  C3, as stated, asks that a duration of 0 or less is refused with \<open>InvalidDuration\<close>
  before any sampling resource is touched. The module does not look at the duration:
  \<open>profile\<close> with 0 constructs the profiler and samples, \<open>wall\<close> with -1 samples, and
  with profilers that accept the duration both return a profile.
\<close>

theorem zero_duration_is_sampled:
  "profile (example_library False []) (Some example_handler) (Some 0) \<lparr>calls = [], ext = idle\<rparr>
   = (Inr [0x1F, 0x8B], \<lparr>calls = [NewCPUProfiler, CPUProfile 0], ext = idle\<rparr>)
   \<and> wall (example_library False []) (Some example_handler) (Some (- 1)) \<lparr>calls = [], ext = idle\<rparr>
   = (Inr [0x1F, 0x8B], \<lparr>calls = [WallProfile (- 1)], ext = idle\<rparr>)"
  by (simp add: profile_run wall_run example_library_def)

text \<open>
  C3, amended. For every duration of 0 or less and every collaborator, the sampler is
  reached: \<open>profile\<close> always calls the \<open>CPUProfiler\<close> constructor, and when that returns a
  profiler it calls \<open>profile\<close> with the duration as given; \<open>wall\<close> calls the wall
  profiler's \<open>profile\<close> with the duration as given. The value or exception of the call is
  the profiler's own; the module validates nothing.
\<close>

theorem duration_not_validated:
  "d \<le> 0 \<Longrightarrow>
     calls (snd (profile L (Some self) (Some d) w)) \<noteq> calls w
   \<and> calls (snd (wall L (Some self) (Some d) w)) = calls w @ [WallProfile d]
   \<and> fst (wall L (Some self) (Some d) w) = fst (WallProfiler_profile L d (ext w))
   \<and> (CPUProfiler L (ext w) = (Inr p, x1) \<longrightarrow>
        calls (snd (profile L (Some self) (Some d) w)) = calls w @ [NewCPUProfiler, CPUProfile d]
      \<and> fst (profile L (Some self) (Some d) w) = fst (CPUProfiler_profile L p d x1))"
  by (auto simp: profile_run wall_run split: prod.splits sum.splits)

theorem duration_not_validated_witness:
  "calls (snd (wall (example_library False []) (Some example_handler) (Some (- 1))
            \<lparr>calls = [], ext = idle\<rparr>)) = [WallProfile (- 1)]
   \<and> fst (profile (example_library False []) (Some example_handler) (Some (- 1))
            \<lparr>calls = [], ext = idle\<rparr>) = Inr [0x1F, 0x8B]"
  using duration_not_validated
    [of "- 1" "example_library False []" example_handler "\<lparr>calls = [], ext = idle\<rparr>" "()" idle]
  by (simp add: example_library_def)

section \<open>Registration of the wall profiler's signal handler\<close>

text \<open>
  C5, as stated, asks that a second initialisation fails with
  \<open>UnsupportedInitialization\<close>. \<open>start_pprof\<close> called twice returns normally both times
  and the handler is registered twice.
\<close>

theorem second_start_pprof_registers_again:
  "start_pprof (example_library False []) (snd (start_pprof (example_library False []) \<lparr>calls = [], ext = idle\<rparr>))
   = (Inr (), \<lparr>calls = [RegisterHandler, RegisterHandler], ext = idle\<lparr>registrations := 2\<rparr>\<rparr>)"
  by (simp add: start_pprof_run example_library_def idle_def)

text \<open>
  C5, amended. \<open>start_pprof\<close> checks neither whether it ran before nor where it runs:
  every invocation, in every world and for every collaborator, calls
  \<open>register_handler\<close> of the module-level wall profiler and ends as that call ends, so
  two invocations make two registration calls. A failure, if any, is the one
  \<open>register_handler\<close> raises.
\<close>

theorem start_pprof_registers_every_time:
  "start_pprof L w =
     (case WallProfiler_register_handler L (ext w) of
        (r, x1) \<Rightarrow> (r, \<lparr>calls = calls w @ [RegisterHandler], ext = x1\<rparr>))
   \<and> calls (snd (start_pprof L (snd (start_pprof L w)))) = calls w @ [RegisterHandler, RegisterHandler]"
  by (simp add: start_pprof_run split: prod.splits)

section \<open>The heap endpoint\<close>

text \<open>
  C4. A heap request made while the tracer is unavailable (\<open>mprofile\<close> not installed) or
  inactive (\<open>is_tracing()\<close> false) is answered through \<open>self.send_error(412, ...)\<close>, the
  precondition-failed status, with the message that says which of the two it is: the
  value returned is that of \<open>send_error\<close>, never a profile, and neither a snapshot nor a
  builder is touched. With the tracer installed and active the request takes the
  snapshot and returns the encoded profile: the bytes \<open>emit\<close> gives for the builder
  populated with one entry per statistic under \<open>HEAP\<close>, \<open>bytes\<close>, the snapshot's sample
  rate and 1. Here the snapshot is what \<open>mprofile\<close> reports, statistics grouped by
  traceback, so that no traceback is listed twice; the builder is a parameter, and the
  form of the bytes is its own. All of this is for either value of \<open>run_gc\<close>, once the
  optional collection has returned.
\<close>

theorem heap_tracer_gate:
  assumes "(if default_arg False run_gc then extern GcCollect (gc_collect L) else return_value ()) w
           = (Inr (), w0)"
  shows "(\<not> has_mprofile L \<longrightarrow>
           heap L (Some self) run_gc w =
             (case send_error self 412 ''mprofile must be installed to enable heap profiling'' (ext w0) of
                (r, x1) \<Rightarrow>
                  ((case r of Inl e \<Rightarrow> Inl e | Inr v \<Rightarrow> Inr (ErrorSent v)),
                   \<lparr>calls = calls w0 @ [SendError 412 ''mprofile must be installed to enable heap profiling''],
                    ext = x1\<rparr>)))
       \<and> (has_mprofile L \<and> mprofile_is_tracing L (ext w0) = (Inr False, x1) \<longrightarrow>
           heap L (Some self) run_gc w =
             (case send_error self 412 ''Heap profiling is not enabled'' x1 of
                (r, x2) \<Rightarrow>
                  ((case r of Inl e \<Rightarrow> Inl e | Inr v \<Rightarrow> Inr (ErrorSent v)),
                   \<lparr>calls = calls w0 @ [IsTracing, SendError 412 ''Heap profiling is not enabled''],
                    ext = x2\<rparr>)))
       \<and> (has_mprofile L \<and> mprofile_is_tracing L (ext w0) = (Inr True, x1)
          \<and> mprofile_take_snapshot L x1 = (Inr snap, x2)
          \<and> distinct (map trace_of (statistics snap ''traceback''))
          \<and> new_builder (Builder L) = Inr b0
          \<and> populate_profile (Builder L) b0 (map entry_of (statistics snap ''traceback''))
               ''HEAP'' ''bytes'' (sample_rate snap) 1 = Inr b1
          \<and> emit (Builder L) b1 = Inr encoded \<longrightarrow>
           heap L (Some self) run_gc w =
             (Inr (Pprof encoded), \<lparr>calls = calls w0 @ [IsTracing, TakeSnapshot], ext = x2\<rparr>))"
proof (intro conjI impI)
  assume "\<not> has_mprofile L"
  then show "heap L (Some self) run_gc w =
             (case send_error self 412 ''mprofile must be installed to enable heap profiling'' (ext w0) of
                (r, x1) \<Rightarrow>
                  ((case r of Inl e \<Rightarrow> Inl e | Inr v \<Rightarrow> Inr (ErrorSent v)),
                   \<lparr>calls = calls w0 @ [SendError 412 ''mprofile must be installed to enable heap profiling''],
                    ext = x1\<rparr>))"
    using assms by (rule heap_gate_not_installed [rotated])
next
  assume "has_mprofile L \<and> mprofile_is_tracing L (ext w0) = (Inr False, x1)"
  then show "heap L (Some self) run_gc w =
             (case send_error self 412 ''Heap profiling is not enabled'' x1 of
                (r, x2) \<Rightarrow>
                  ((case r of Inl e \<Rightarrow> Inl e | Inr v \<Rightarrow> Inr (ErrorSent v)),
                   \<lparr>calls = calls w0 @ [IsTracing, SendError 412 ''Heap profiling is not enabled''],
                    ext = x2\<rparr>))"
    using assms heap_gate_not_tracing [of run_gc L w w0 x1 self] by blast
next
  assume on: "has_mprofile L \<and> mprofile_is_tracing L (ext w0) = (Inr True, x1)
          \<and> mprofile_take_snapshot L x1 = (Inr snap, x2)
          \<and> distinct (map trace_of (statistics snap ''traceback''))
          \<and> new_builder (Builder L) = Inr b0
          \<and> populate_profile (Builder L) b0 (map entry_of (statistics snap ''traceback''))
               ''HEAP'' ''bytes'' (sample_rate snap) 1 = Inr b1
          \<and> emit (Builder L) b1 = Inr encoded"
  then have "build_heap_pprof (Builder L) snap = Inr encoded"
    using build_heap_pprof_grouped [of snap "Builder L" b0 b1] by simp
  moreover have "heap L (Some self) run_gc w =
     ((case build_heap_pprof (Builder L) snap of Inl e \<Rightarrow> Inl e | Inr pprof \<Rightarrow> Inr (Pprof pprof)),
      \<lparr>calls = calls w0 @ [IsTracing, TakeSnapshot], ext = x2\<rparr>)"
    using assms on heap_gate_tracing [of run_gc L w w0 x1 snap x2 self] by blast
  ultimately show "heap L (Some self) run_gc w =
             (Inr (Pprof encoded), \<lparr>calls = calls w0 @ [IsTracing, TakeSnapshot], ext = x2\<rparr>)"
    by simp
qed

text \<open>
  The three cases: \<open>mprofile\<close> not installed; installed with tracing off; and, after a
  collection, tracing on with a snapshot of two statistics.
\<close>

theorem heap_tracer_gate_witness:
  "heap (example_library False []) (Some example_handler) None \<lparr>calls = [], ext = idle\<rparr>
   = (Inr (ErrorSent ()),
      \<lparr>calls = [SendError 412 ''mprofile must be installed to enable heap profiling''], ext = idle\<rparr>)
   \<and> heap (example_library True []) (Some example_handler) None \<lparr>calls = [], ext = idle\<rparr>
   = (Inr (ErrorSent ()),
      \<lparr>calls = [IsTracing, SendError 412 ''Heap profiling is not enabled''], ext = idle\<rparr>)
   \<and> heap (example_library True []) (Some example_handler) (Some True)
       \<lparr>calls = [],
        ext = idle\<lparr>tracing := True,
                   allocations := [\<lparr>stat_traceback = [frame_at 12], stat_count = 3, stat_size = 100\<rparr>,
                                   \<lparr>stat_traceback = [frame_at 13], stat_count = 2, stat_size = 50\<rparr>]\<rparr>\<rparr>
   = (Inr (Pprof [0x1F, 0x8B, 2]),
      \<lparr>calls = [GcCollect, IsTracing, TakeSnapshot],
       ext = idle\<lparr>collections := 1, tracing := True,
                  allocations := [\<lparr>stat_traceback = [frame_at 12], stat_count = 3, stat_size = 100\<rparr>,
                                  \<lparr>stat_traceback = [frame_at 13], stat_count = 2, stat_size = 50\<rparr>]\<rparr>\<rparr>)"
proof -
  let ?a = "\<lparr>stat_traceback = [frame_at 12], stat_count = 3, stat_size = 100\<rparr>"
  let ?b = "\<lparr>stat_traceback = [frame_at 13], stat_count = 2, stat_size = 50\<rparr>"
  let ?w = "\<lparr>calls = [], ext = idle\<rparr>"
  let ?on = "idle\<lparr>collections := 1, tracing := True, allocations := [?a, ?b]\<rparr>"
  let ?snap = "\<lparr>statistics = (\<lambda>key_type. [?a, ?b]), sample_rate = 128\<rparr>"
  have plain: "(if default_arg False None then extern GcCollect (gc_collect L) else return_value ()) ?w
               = (Inr (), ?w)" for L :: "(sampler, unit, sample_table) library"
    by (simp add: default_arg_def return_value_def)
  have collected:
    "(if default_arg False (Some True) then extern GcCollect (gc_collect (example_library True []))
      else return_value ())
       \<lparr>calls = [], ext = idle\<lparr>tracing := True, allocations := [?a, ?b]\<rparr>\<rparr>
     = (Inr (), \<lparr>calls = [GcCollect], ext = ?on\<rparr>)"
    by (simp add: default_arg_def extern_def example_library_def idle_def)
  note off = heap_tracer_gate
      [where L = "example_library False []" and self = example_handler and run_gc = None
         and w = ?w and ?w0.0 = ?w, OF plain]
  note idle_on = heap_tracer_gate
      [where L = "example_library True []" and self = example_handler and run_gc = None
         and w = ?w and ?w0.0 = ?w and ?x1.0 = idle, OF plain]
  note active = heap_tracer_gate
      [where L = "example_library True []" and self = example_handler and run_gc = "Some True"
         and ?x1.0 = ?on and snap = ?snap and ?x2.0 = ?on and ?b0.0 = "[]"
         and ?b1.0 = "map entry_of [?a, ?b]" and encoded = "[0x1F, 0x8B, 2]", OF collected]
  have "heap (example_library False []) (Some example_handler) None ?w
        = (Inr (ErrorSent ()),
           \<lparr>calls = [SendError 412 ''mprofile must be installed to enable heap profiling''], ext = idle\<rparr>)"
    using off by (simp add: example_library_def example_handler_def)
  moreover have "heap (example_library True []) (Some example_handler) None ?w
        = (Inr (ErrorSent ()),
           \<lparr>calls = [IsTracing, SendError 412 ''Heap profiling is not enabled''], ext = idle\<rparr>)"
    using idle_on by (simp add: example_library_def example_handler_def idle_def)
  moreover have "heap (example_library True []) (Some example_handler) (Some True)
          \<lparr>calls = [], ext = idle\<lparr>tracing := True, allocations := [?a, ?b]\<rparr>\<rparr>
        = (Inr (Pprof [0x1F, 0x8B, 2]), \<lparr>calls = [GcCollect, IsTracing, TakeSnapshot], ext = ?on\<rparr>)"
    using active
    by (simp add: example_library_def example_builder_def idle_def trace_of_def frame_tuple_def
          frame_at_def)
  ultimately show ?thesis by simp
qed

text \<open>
  C9. With \<open>run_gc\<close> true, \<open>gc.collect()\<close> is the first call \<open>heap\<close> makes, before the
  \<open>has_mprofile\<close> test and before \<open>mprofile.is_tracing()\<close>. When the collection returns,
  both 412 answers come after it and act on the state the collection left: without
  \<open>mprofile\<close> the calls are the collection and \<open>send_error\<close>; with \<open>mprofile\<close> and tracing
  off they are the collection, \<open>is_tracing\<close> and \<open>send_error\<close>.
\<close>

theorem gc_runs_before_the_checks:
  "take (Suc (length (calls w))) (calls (snd (heap L (Some self) (Some True) w))) = calls w @ [GcCollect]
   \<and> (gc_collect L (ext w) = (Inr (), x1) \<and> \<not> has_mprofile L \<longrightarrow>
        snd (heap L (Some self) (Some True) w) =
          \<lparr>calls = calls w @ [GcCollect, SendError 412 ''mprofile must be installed to enable heap profiling''],
           ext = snd (send_error self 412 ''mprofile must be installed to enable heap profiling'' x1)\<rparr>)
   \<and> (gc_collect L (ext w) = (Inr (), x1) \<and> has_mprofile L \<and> mprofile_is_tracing L x1 = (Inr False, x2) \<longrightarrow>
        snd (heap L (Some self) (Some True) w) =
          \<lparr>calls = calls w @ [GcCollect, IsTracing, SendError 412 ''Heap profiling is not enabled''],
           ext = snd (send_error self 412 ''Heap profiling is not enabled'' x2)\<rparr>)"
  using heap_gc_first [of w L self] heap_gc_not_installed [of L w x1 self]
    heap_gc_not_tracing [of L w x1 x2 self]
  by blast

theorem gc_runs_before_the_checks_witness:
  "snd (heap (example_library False []) (Some example_handler) (Some True) \<lparr>calls = [], ext = idle\<rparr>) =
     \<lparr>calls = [GcCollect, SendError 412 ''mprofile must be installed to enable heap profiling''],
      ext = idle\<lparr>collections := 1\<rparr>\<rparr>
   \<and> snd (heap (example_library True []) (Some example_handler) (Some True) \<lparr>calls = [], ext = idle\<rparr>) =
     \<lparr>calls = [GcCollect, IsTracing, SendError 412 ''Heap profiling is not enabled''],
      ext = idle\<lparr>collections := 1\<rparr>\<rparr>"
  using gc_runs_before_the_checks
      [of "\<lparr>calls = [], ext = idle\<rparr>" "example_library False []" example_handler
          "idle\<lparr>collections := 1\<rparr>" "idle\<lparr>collections := 1\<rparr>"]
    gc_runs_before_the_checks
      [of "\<lparr>calls = [], ext = idle\<rparr>" "example_library True []" example_handler
          "idle\<lparr>collections := 1\<rparr>" "idle\<lparr>collections := 1\<rparr>"]
  by (simp add: example_library_def example_handler_def idle_def)

section \<open>The thread endpoint\<close>

text \<open>
  C10. The result of \<open>thread\<close> does not depend on \<open>debug\<close>: for the same collaborators
  and the same world, any two values of the flag (true, false or left out) give the same
  value or exception and the same world afterwards.
\<close>

theorem thread_ignores_debug: "thread L self debug1 w = thread L self debug2 w"
  by (simp add: thread_def run split: prod.splits sum.splits option.splits)

section \<open>The command line endpoint\<close>

text \<open>
  C6, as stated, fails in its example and for arguments that UTF-8 cannot encode. For
  the arguments \<open>prog\<close>, \<open>-x\<close>, \<open>1\<close> the result is the nine bytes of \<open>prog\<close>, NUL, \<open>-x\<close>,
  NUL, \<open>1\<close>; the text the claim gives has a space before the \<open>1\<close> and encodes to ten
  bytes. An argument that holds a lone surrogate (here \<open>U+DCFF\<close>, as Python decodes the
  undecodable byte \<open>0xFF\<close> of a command line) makes \<open>encode\<close> raise.
\<close>

theorem cmdline_example_has_no_space:
  "fst (cmdline (example_library False [str_of ''prog'', str_of ''-x'', str_of ''1''])
          (Some example_handler) \<lparr>calls = [], ext = idle\<rparr>)
     = Inr [0x70, 0x72, 0x6F, 0x67, 0, 0x2D, 0x78, 0, 0x31]
   \<and> encode_utf8 (str_of (''prog'' @ [CHR 0x00] @ ''-x'' @ [CHR 0x00] @ '' 1''))
     = Inr [0x70, 0x72, 0x6F, 0x67, 0, 0x2D, 0x78, 0, 0x20, 0x31]
   \<and> fst (cmdline (example_library False [str_of ''prog'', [0xDCFF]])
          (Some example_handler) \<lparr>calls = [], ext = idle\<rparr>)
     = Inl UnicodeEncodeError"
  by (simp add: cmdline_def run example_library_def str_of_def utf8_char_def)

text \<open>
  C6, amended. For every argument vector whose arguments UTF-8 can encode, \<open>cmdline\<close>
  returns exactly the UTF-8 bytes of the arguments joined by single NUL bytes, with no
  trailing NUL, and changes nothing.
\<close>

theorem cmdline_is_nul_joined_argv:
  assumes "list_all encodable (sys_argv L)"
  shows "cmdline L (Some self) w = (Inr (nul_joined (map utf8_bytes (sys_argv L))), w)"
proof -
  have "encode_utf8 (str_join [0] (sys_argv L)) = Inr (str_join [0] (map utf8_bytes (sys_argv L)))"
    using assms by (simp add: encode_utf8_eq encodable_join utf8_bytes_join)
  moreover have "str_join [0] (map utf8_bytes (sys_argv L)) = nul_joined (map utf8_bytes (sys_argv L))"
    by (simp add: str_join_butlast nul_joined_def nul_terminated_def)
  ultimately show ?thesis
    by (simp add: cmdline_def run)
qed

theorem cmdline_is_nul_joined_argv_witness:
  "cmdline (example_library False [str_of ''prog'', str_of ''-x'', str_of ''1''])
     (Some example_handler) \<lparr>calls = [], ext = idle\<rparr>
   = (Inr [0x70, 0x72, 0x6F, 0x67, 0, 0x2D, 0x78, 0, 0x31], \<lparr>calls = [], ext = idle\<rparr>)"
  using cmdline_is_nul_joined_argv
    [of "example_library False [str_of ''prog'', str_of ''-x'', str_of ''1'']" example_handler
        "\<lparr>calls = [], ext = idle\<rparr>"]
  by (simp add: example_library_def str_of_def encodable_def utf8_bytes_def utf8_char_def
        nul_joined_def nul_terminated_def)

section \<open>The route handler\<close>

text \<open>
  C7. A request to the route should sample for the default 30 seconds and answer with
  the profile as an octet stream named \<open>profile\<close>. \<open>handle_profile\<close> calls \<open>profile()\<close>
  with no argument, and \<open>profile\<close> has the required first parameter \<open>self\<close>: for every
  request the call raises \<open>TypeError\<close> before any profiler is constructed, and no response
  is built.
\<close>

theorem handle_profile_raises: "handle_profile L request w = (Inl TypeError, w)"
  by (simp add: handle_profile_def profile_def run)

end
